theory Spec2Isabelle
  imports Complex_Main
begin

section \<open>Matrices and joint vectors\<close>

text \<open>
  The planner works on CasADi matrices of floating-point numbers. They are modelled over
  the reals: a matrix is the list of its rows, a joint configuration is a vector of exactly
  six angles.
\<close>

type_synonym mat = "real list list"

datatype vec6 = Vec6 real real real real real real

fun vlist :: "vec6 \<Rightarrow> real list" where
  "vlist (Vec6 q0 q1 q2 q3 q4 q5) = [q0, q1, q2, q3, q4, q5]"

fun vmap :: "(real \<Rightarrow> real) \<Rightarrow> vec6 \<Rightarrow> vec6" where
  "vmap f (Vec6 q0 q1 q2 q3 q4 q5) = Vec6 (f q0) (f q1) (f q2) (f q3) (f q4) (f q5)"

text \<open>\<^verbatim>\<open>ca.MX.eye(n)\<close> and \<^verbatim>\<open>ca.mtimes(A, B)\<close>.\<close>

definition eye :: "nat \<Rightarrow> mat" where
  "eye n = map (\<lambda>i. map (\<lambda>j. if i = j then 1 else 0) [0..<n]) [0..<n]"

definition mtimes :: "mat \<Rightarrow> mat \<Rightarrow> mat" where
  "mtimes A B =
     map (\<lambda>row. map (\<lambda>j. sum_list (map2 (\<lambda>x brow. x * brow ! j) row B)) [0..<length (hd B)]) A"

section \<open>DH transform, TCP offset and forward kinematics\<close>

definition dh_transform :: "real \<Rightarrow> real \<Rightarrow> real \<Rightarrow> real \<Rightarrow> mat" where
  "dh_transform theta d a alpha =
     [[cos theta, - sin theta * cos alpha, sin theta * sin alpha, a * cos theta],
      [sin theta, cos theta * cos alpha, - cos theta * sin alpha, a * sin theta],
      [0, sin alpha, cos alpha, d],
      [0, 0, 0, 1]]"

definition tcp_offset :: mat where
  "tcp_offset = [[1, 0, 0, 0], [0, 1, 0, 0], [0, 0, 1, 0.200], [0, 0, 0, 1]]"

text \<open>
  \<^verbatim>\<open>forward_kinematics(q)\<close>: the loop over the six joints is a left fold over the joint
  indices; the result \<^verbatim>\<open>T[0:3, 3]\<close> is the triple of the first three entries of the last
  column.
\<close>

definition forward_kinematics :: "vec6 \<Rightarrow> real \<times> real \<times> real" where
  "forward_kinematics q =
     (let d = [0.1273, 0, 0, 0.1639, 0.1157, 0.0922];
          a = [0, -0.612, -0.5723, 0, 0, 0];
          alpha = [pi / 2, 0, 0, pi / 2, - pi / 2, 0];
          T = foldl (\<lambda>T i. mtimes T (dh_transform (vlist q ! i) (d ! i) (a ! i) (alpha ! i)))
                (eye 4) [0..<6];
          T = mtimes T tcp_offset
      in (T ! 0 ! 3, T ! 1 ! 3, T ! 2 ! 3))"

section \<open>The nonlinear program\<close>

text \<open>
  The decision variable \<^verbatim>\<open>q = opti.variable(6, N)\<close> is symbolic. A symbolic expression is
  modelled by its meaning: a function of the values given to the entries of \<^verbatim>\<open>q\<close>, where
  \<open>v j k\<close> is the value of row (joint) \<open>j\<close> and column (sample) \<open>k\<close>.
\<close>

type_synonym valuation = "nat \<Rightarrow> nat \<Rightarrow> real"

type_synonym obstacle = "real \<times> real \<times> real \<times> real \<times> real \<times> real"

text \<open>
  The three forms of constraint handed to \<^verbatim>\<open>opti.subject_to\<close>:
  \<^verbatim>\<open>opti.bounded(lo, e, hi)\<close>, \<^verbatim>\<open>e == c\<close> and \<^verbatim>\<open>e >= c\<close>.
\<close>

datatype constraint =
    Bounded real "valuation \<Rightarrow> real list" real
  | Equal "valuation \<Rightarrow> vec6" vec6
  | GreaterEq "valuation \<Rightarrow> real" real

record nlp =
  ncols :: nat
  objective :: "valuation \<Rightarrow> real"
  constraints :: "constraint list"

fun holds :: "valuation \<Rightarrow> constraint \<Rightarrow> bool" where
  "holds v (Bounded lo e hi) = list_all (\<lambda>x. lo \<le> x \<and> x \<le> hi) (e v)"
| "holds v (Equal e c) = (e v = c)"
| "holds v (GreaterEq e c) = (c \<le> e v)"

definition feasible :: "nlp \<Rightarrow> valuation \<Rightarrow> bool" where
  "feasible opti v = list_all (holds v) (constraints opti)"

text \<open>The slices \<^verbatim>\<open>q[:, k]\<close>, \<^verbatim>\<open>q[j, :]\<close> and \<^verbatim>\<open>q[:, 1:] - q[:, :-1]\<close> of a 6 x N variable.\<close>

definition col :: "nat \<Rightarrow> valuation \<Rightarrow> vec6" where
  "col k v = Vec6 (v 0 k) (v 1 k) (v 2 k) (v 3 k) (v 4 k) (v 5 k)"

definition row :: "nat \<Rightarrow> nat \<Rightarrow> valuation \<Rightarrow> real list" where
  "row N j v = map (\<lambda>k. v j k) [0..<N]"

definition dq :: "nat \<Rightarrow> valuation \<Rightarrow> mat" where
  "dq N v = map (\<lambda>j. map (\<lambda>k. v j (k + 1) - v j k) [0..<N - 1]) [0..<6]"

definition sumsqr :: "mat \<Rightarrow> real" where
  "sumsqr M = sum_list (map (\<lambda>x. x\<^sup>2) (concat M))"

text \<open>The body of the obstacle loop: the expression constrained for one box.\<close>

definition outside_dist_sq :: "obstacle \<Rightarrow> real \<times> real \<times> real \<Rightarrow> real" where
  "outside_dist_sq ob ee_pos =
     (case ob of (xmin, xmax, ymin, ymax, zmin, zmax) \<Rightarrow>
      case ee_pos of (x, y, z) \<Rightarrow>
        let dx = max (xmin - x) 0 + max (x - xmax) 0;
            dy = max (ymin - y) 0 + max (y - ymax) 0;
            dz = max (zmin - z) 0 + max (z - zmax) 0
        in dx\<^sup>2 + dy\<^sup>2 + dz\<^sup>2)"

text \<open>
  Exceptions. The source has no \<^verbatim>\<open>raise\<close> of its own; what can be raised comes from Python
  indexing (\<^verbatim>\<open>IndexError\<close>) and from CasADi, which reports each of its failures as a Python
  \<^verbatim>\<open>RuntimeError\<close>: a negative dimension given to \<^verbatim>\<open>opti.variable\<close>, a column index outside
  the variable, and a solver that did not succeed (the message carries the solver's return
  status).
\<close>

datatype casadi_error = NegativeDimension | IndexOutOfBounds | SolverFailed string

datatype exn = IndexError | RuntimeError casadi_error

fun exn_class :: "exn \<Rightarrow> string" where
  "exn_class IndexError = ''IndexError''"
| "exn_class (RuntimeError _) = ''RuntimeError''"

text \<open>
  \<^verbatim>\<open>setup_optimization\<close>. \<^verbatim>\<open>N\<close> is a Python integer; the constraints are appended in the
  order of the three loops.
\<close>

definition setup_optimization ::
  "vec6 list \<Rightarrow> int \<Rightarrow> (real \<times> real) list \<Rightarrow> obstacle list \<Rightarrow> real \<Rightarrow> exn + nlp" where
  "setup_optimization waypoints steps_between_waypoints joint_limits obstacles d_min =
     (let N = (int (length waypoints) - 1) * steps_between_waypoints + 1 in
      if N < 0 then Inl (RuntimeError NegativeDimension)
      else if length joint_limits < 6 then Inl IndexError
      else if \<not> list_all (\<lambda>i. 0 \<le> int i * steps_between_waypoints
                               \<and> int i * steps_between_waypoints < N) [0..<length waypoints]
        then Inl (RuntimeError IndexOutOfBounds)
      else Inr \<lparr>ncols = nat N,
                objective = (\<lambda>v. sumsqr (dq (nat N) v)),
                constraints =
                  map (\<lambda>j. Bounded (fst (joint_limits ! j)) (row (nat N) j) (snd (joint_limits ! j)))
                    [0..<6]
                  @ map (\<lambda>(i, wp). Equal (col (nat (int i * steps_between_waypoints))) wp)
                      (enumerate 0 waypoints)
                  @ concat (map (\<lambda>k. map (\<lambda>ob.
                        GreaterEq (\<lambda>v. outside_dist_sq ob (forward_kinematics (col k v))) (d_min\<^sup>2))
                      obstacles) [0..<nat N])\<rparr>)"

section \<open>Solving\<close>

text \<open>
  The backend (\<^verbatim>\<open>opti.solver("ipopt")\<close>, \<^verbatim>\<open>opti.solve()\<close>) is external: it is a parameter,
  a function of the problem and of its own state that returns either a return status (the
  solver did not succeed) or values for the variable, and its new state.
\<close>

type_synonym 's backend = "nlp \<Rightarrow> 's \<Rightarrow> (string + valuation) \<times> 's"

definition radians :: "real \<Rightarrow> real" where
  "radians x = x * (pi / 180)"

definition rad2deg :: "real \<Rightarrow> real" where
  "rad2deg x = x * (180 / pi)"

text \<open>\<^verbatim>\<open>sol.value(q)\<close>: the values of the 6 x N variable, as the list of its six rows.\<close>

definition value_q :: "nat \<Rightarrow> valuation \<Rightarrow> mat" where
  "value_q N v = map (\<lambda>j. map (\<lambda>k. v j k) [0..<N]) [0..<6]"

text \<open>
  \<^verbatim>\<open>solve_and_print_trajectory(opti, q, N)\<close>. The text written to the standard output is not
  modelled; the indexing of the print loop is. \<^verbatim>\<open>sol.value\<close> gives a two-dimensional array
  for a variable of several columns, and a one-dimensional array of the six values for a
  variable of a single column, which \<^verbatim>\<open>optimized_q_deg[:, i]\<close> cannot index
  (\<^verbatim>\<open>IndexError\<close>); a column index beyond the array raises \<^verbatim>\<open>IndexError\<close> as well. Where
  the loop does not run, the one-dimensional array is given as its six rows of one entry.
\<close>

definition solve_and_print_trajectory ::
  "'s backend \<Rightarrow> nlp \<Rightarrow> nat \<Rightarrow> 's \<Rightarrow> (exn + mat) \<times> 's" where
  "solve_and_print_trajectory ipopt opti N s =
     (case ipopt opti s of
        (Inl status, s') \<Rightarrow> (Inl (RuntimeError (SolverFailed status)), s')
      | (Inr sol, s') \<Rightarrow>
          let optimized_q = value_q (ncols opti) sol;
              optimized_q_deg = map (map rad2deg) optimized_q
          in if 0 < N \<and> (ncols opti = 1 \<or> ncols opti < N) then (Inl IndexError, s')
             else (Inr optimized_q_deg, s'))"

definition optimize_from_waypoints_deg ::
  "'s backend \<Rightarrow> vec6 list \<Rightarrow> 's \<Rightarrow> (exn + mat) \<times> 's" where
  "optimize_from_waypoints_deg ipopt waypoints_deg s =
     (let waypoints_rad = map (vmap radians) waypoints_deg;
          steps_between_waypoints = 3;
          joint_limits = replicate 6 (- pi, pi);
          obstacles = [(-0.095, 0.115, -0.76, -0.70, 0.125, 0.325)];
          d_min = 0.05
      in case setup_optimization waypoints_rad steps_between_waypoints joint_limits obstacles d_min of
           Inl e \<Rightarrow> (Inl e, s)
         | Inr opti \<Rightarrow> solve_and_print_trajectory ipopt opti (ncols opti) s)"

section \<open>The specification's formulations\<close>

text \<open>
  The elementary transforms of the Denavit-Hartenberg convention, for the specification's
  \<open>T_i = Rz(theta_i) \<cdot> Tz(d_i) \<cdot> Tx(a_i) \<cdot> Rx(alpha_i)\<close>.
\<close>

definition Rz :: "real \<Rightarrow> mat" where
  "Rz theta = [[cos theta, - sin theta, 0, 0], [sin theta, cos theta, 0, 0],
               [0, 0, 1, 0], [0, 0, 0, 1]]"

definition Rx :: "real \<Rightarrow> mat" where
  "Rx alpha = [[1, 0, 0, 0], [0, cos alpha, - sin alpha, 0],
               [0, sin alpha, cos alpha, 0], [0, 0, 0, 1]]"

definition Tz :: "real \<Rightarrow> mat" where
  "Tz d = [[1, 0, 0, 0], [0, 1, 0, 0], [0, 0, 1, d], [0, 0, 0, 1]]"

definition Tx :: "real \<Rightarrow> mat" where
  "Tx a = [[1, 0, 0, a], [0, 1, 0, 0], [0, 0, 1, 0], [0, 0, 0, 1]]"

definition spec_link :: "vec6 \<Rightarrow> nat \<Rightarrow> mat" where
  "spec_link q i =
     mtimes (Rz (vlist q ! i))
       (mtimes (Tz ([0.1273, 0, 0, 0.1639, 0.1157, 0.0922] ! i))
         (mtimes (Tx ([0, -0.612, -0.5723, 0, 0, 0] ! i))
           (Rx ([pi / 2, 0, 0, pi / 2, - pi / 2, 0] ! i))))"

definition translation :: "mat \<Rightarrow> real \<times> real \<times> real" where
  "translation T = (T ! 0 ! 3, T ! 1 ! 3, T ! 2 ! 3)"

text \<open>
  The chain as the specification words it, the running transform multiplied on the left by
  each link's transform (\<open>T := T_i \<cdot> T\<close>), and the chain with the running transform
  multiplied on the right (\<open>T := T \<cdot> T_i\<close>).
\<close>

definition spec_fk_left_multiply :: "vec6 \<Rightarrow> real \<times> real \<times> real" where
  "spec_fk_left_multiply q =
     translation (mtimes (foldl (\<lambda>T i. mtimes (spec_link q i) T) (eye 4) [0..<6]) (Tz 0.2))"

definition spec_fk_right_multiply :: "vec6 \<Rightarrow> real \<times> real \<times> real" where
  "spec_fk_right_multiply q =
     translation (mtimes (foldl (\<lambda>T i. mtimes T (spec_link q i)) (eye 4) [0..<6]) (Tz 0.2))"

text \<open>
  The objective as the specification words it: the sum, over the pairs of consecutive
  columns, of the squared Euclidean norm of their difference.
\<close>

definition sq_norm_diff :: "vec6 \<Rightarrow> vec6 \<Rightarrow> real" where
  "sq_norm_diff x y = sum_list (map2 (\<lambda>a b. (a - b)\<^sup>2) (vlist x) (vlist y))"

definition spec_objective :: "nat \<Rightarrow> valuation \<Rightarrow> real" where
  "spec_objective N v = sum_list (map (\<lambda>k. sq_norm_diff (col (k + 1) v) (col k v)) [0..<N - 1])"

text \<open>The column \<open>k\<close> of a matrix given by its rows.\<close>

definition column :: "mat \<Rightarrow> nat \<Rightarrow> real list" where
  "column M k = map (\<lambda>r. r ! k) M"

section \<open>Example backends\<close>

text \<open>
  Backends whose state counts their invocations: one that always reports an infeasible
  problem, one that always runs out of iterations, one that always returns the zero
  trajectory, one that always returns a given trajectory, and one that fails on its first
  invocation only.
\<close>

definition infeasible_backend :: "nat backend" where
  "infeasible_backend opti n = (Inl ''Infeasible_Problem_Detected'', Suc n)"

definition max_iter_backend :: "nat backend" where
  "max_iter_backend opti n = (Inl ''Maximum_Iterations_Exceeded'', Suc n)"

definition zero_backend :: "nat backend" where
  "zero_backend opti n = (Inr (\<lambda>j k. 0), Suc n)"

definition constant_backend :: "valuation \<Rightarrow> nat backend" where
  "constant_backend v opti n = (Inr v, Suc n)"

definition flaky_backend :: "nat backend" where
  "flaky_backend opti n =
     (if n = 0 then Inl ''Maximum_Iterations_Exceeded'' else Inr (\<lambda>j k. 0), Suc n)"

text \<open>The class of the exception a call ends with, if it ends with one.\<close>

fun raised_class :: "exn + 'a \<Rightarrow> string option" where
  "raised_class (Inl e) = Some (exn_class e)"
| "raised_class (Inr _) = None"

section \<open>The second copy of the planner\<close>

text \<open>
  \<^verbatim>\<open>prueba/TrajectoryPlannerV1_0.py\<close> holds the same functions again; they are translated
  from that file, under its name.
\<close>

definition prueba_dh_transform :: "real \<Rightarrow> real \<Rightarrow> real \<Rightarrow> real \<Rightarrow> mat" where
  "prueba_dh_transform theta d a alpha =
     [[cos theta, - sin theta * cos alpha, sin theta * sin alpha, a * cos theta],
      [sin theta, cos theta * cos alpha, - cos theta * sin alpha, a * sin theta],
      [0, sin alpha, cos alpha, d],
      [0, 0, 0, 1]]"

definition prueba_tcp_offset :: mat where
  "prueba_tcp_offset = [[1, 0, 0, 0], [0, 1, 0, 0], [0, 0, 1, 0.200], [0, 0, 0, 1]]"

definition prueba_forward_kinematics :: "vec6 \<Rightarrow> real \<times> real \<times> real" where
  "prueba_forward_kinematics q =
     (let d = [0.1273, 0, 0, 0.1639, 0.1157, 0.0922];
          a = [0, -0.612, -0.5723, 0, 0, 0];
          alpha = [pi / 2, 0, 0, pi / 2, - pi / 2, 0];
          T = foldl (\<lambda>T i. mtimes T
                  (prueba_dh_transform (vlist q ! i) (d ! i) (a ! i) (alpha ! i)))
                (eye 4) [0..<6];
          T = mtimes T prueba_tcp_offset
      in (T ! 0 ! 3, T ! 1 ! 3, T ! 2 ! 3))"

definition prueba_setup_optimization ::
  "vec6 list \<Rightarrow> int \<Rightarrow> (real \<times> real) list \<Rightarrow> obstacle list \<Rightarrow> real \<Rightarrow> exn + nlp" where
  "prueba_setup_optimization waypoints steps_between_waypoints joint_limits obstacles d_min =
     (let N = (int (length waypoints) - 1) * steps_between_waypoints + 1 in
      if N < 0 then Inl (RuntimeError NegativeDimension)
      else if length joint_limits < 6 then Inl IndexError
      else if \<not> list_all (\<lambda>i. 0 \<le> int i * steps_between_waypoints
                               \<and> int i * steps_between_waypoints < N) [0..<length waypoints]
        then Inl (RuntimeError IndexOutOfBounds)
      else Inr \<lparr>ncols = nat N,
                objective = (\<lambda>v. sumsqr (dq (nat N) v)),
                constraints =
                  map (\<lambda>j. Bounded (fst (joint_limits ! j)) (row (nat N) j) (snd (joint_limits ! j)))
                    [0..<6]
                  @ map (\<lambda>(i, wp). Equal (col (nat (int i * steps_between_waypoints))) wp)
                      (enumerate 0 waypoints)
                  @ concat (map (\<lambda>k. map (\<lambda>ob.
                        GreaterEq (\<lambda>v. outside_dist_sq ob (prueba_forward_kinematics (col k v)))
                          (d_min\<^sup>2))
                      obstacles) [0..<nat N])\<rparr>)"

definition prueba_solve_and_print_trajectory ::
  "'s backend \<Rightarrow> nlp \<Rightarrow> nat \<Rightarrow> 's \<Rightarrow> (exn + mat) \<times> 's" where
  "prueba_solve_and_print_trajectory ipopt opti N s =
     (case ipopt opti s of
        (Inl status, s') \<Rightarrow> (Inl (RuntimeError (SolverFailed status)), s')
      | (Inr sol, s') \<Rightarrow>
          let optimized_q = value_q (ncols opti) sol;
              optimized_q_deg = map (map rad2deg) optimized_q
          in if 0 < N \<and> (ncols opti = 1 \<or> ncols opti < N) then (Inl IndexError, s')
             else (Inr optimized_q_deg, s'))"

definition prueba_optimize_from_waypoints_deg ::
  "'s backend \<Rightarrow> vec6 list \<Rightarrow> 's \<Rightarrow> (exn + mat) \<times> 's" where
  "prueba_optimize_from_waypoints_deg ipopt waypoints_deg s =
     (let waypoints_rad = map (vmap radians) waypoints_deg;
          steps_between_waypoints = 3;
          joint_limits = replicate 6 (- pi, pi);
          obstacles = [(-0.095, 0.115, -0.76, -0.70, 0.125, 0.325)];
          d_min = 0.05
      in case prueba_setup_optimization waypoints_rad steps_between_waypoints joint_limits
                obstacles d_min of
           Inl e \<Rightarrow> (Inl e, s)
         | Inr opti \<Rightarrow> prueba_solve_and_print_trajectory ipopt opti (ncols opti) s)"

section \<open>Basic facts\<close>

lemma upt_4: "[0..<4] = [0, 1, 2, 3]"
  by (simp add: upt_rec)

lemma upt_6: "[0..<6] = [0, 1, 2, 3, 4, 5]"
  by (simp add: upt_rec)

lemma setup_optimization_Inr:
  assumes "setup_optimization waypoints steps joint_limits obstacles d_min = Inr opti"
  shows "opti = \<lparr>ncols = nat ((int (length waypoints) - 1) * steps + 1),
                 objective = (\<lambda>v. sumsqr (dq (nat ((int (length waypoints) - 1) * steps + 1)) v)),
                 constraints =
                   map (\<lambda>j. Bounded (fst (joint_limits ! j))
                          (row (nat ((int (length waypoints) - 1) * steps + 1)) j)
                          (snd (joint_limits ! j))) [0..<6]
                   @ map (\<lambda>(i, wp). Equal (col (nat (int i * steps))) wp) (enumerate 0 waypoints)
                   @ concat (map (\<lambda>k. map (\<lambda>ob.
                         GreaterEq (\<lambda>v. outside_dist_sq ob (forward_kinematics (col k v))) (d_min\<^sup>2))
                       obstacles) [0..<nat ((int (length waypoints) - 1) * steps + 1)])\<rparr>"
  using assms unfolding setup_optimization_def Let_def
  by (simp split: if_splits)

lemma outside_dist_sq_inside:
  assumes "xmin \<le> x" "x \<le> xmax" "ymin \<le> y" "y \<le> ymax" "zmin \<le> z" "z \<le> zmax"
  shows "outside_dist_sq (xmin, xmax, ymin, ymax, zmin, zmax) (x, y, z) = 0"
  using assms by (simp add: outside_dist_sq_def max_def)

lemma forward_kinematics_zero:
  "forward_kinematics (Vec6 0 0 0 0 0 0) = (- 1.1843, - 0.4561, 0.0116)"
  by (simp add: forward_kinematics_def Let_def upt_6 upt_4 eye_def mtimes_def
      dh_transform_def tcp_offset_def)

section \<open>Obstacle clearance\<close>

text \<open>
  Claim C1. In the problem assembled by \<^verbatim>\<open>setup_optimization\<close>, for every sample column
  \<open>k\<close> and every obstacle box there is the constraint that the sum of the squares of the three
  per-axis outside distances \<open>max (boxMin - p) 0 + max (p - boxMax) 0\<close> of the end-effector
  position \<open>p\<close> of column \<open>k\<close> is at least \<open>d_min\<^sup>2\<close>. The constrained expression is 0 when
  the position is inside the box, so with a positive \<open>d_min\<close> such a column violates the
  constraint.
\<close>

theorem clearance_constraint:
  assumes "setup_optimization waypoints steps joint_limits obstacles d_min = Inr opti"
    and "k < ncols opti"
    and "(xmin, xmax, ymin, ymax, zmin, zmax) \<in> set obstacles"
  shows "GreaterEq (\<lambda>v. outside_dist_sq (xmin, xmax, ymin, ymax, zmin, zmax)
                          (forward_kinematics (col k v))) (d_min\<^sup>2) \<in> set (constraints opti)
    \<and> outside_dist_sq (xmin, xmax, ymin, ymax, zmin, zmax) (x, y, z) =
        (max (xmin - x) 0 + max (x - xmax) 0)\<^sup>2 + (max (ymin - y) 0 + max (y - ymax) 0)\<^sup>2
        + (max (zmin - z) 0 + max (z - zmax) 0)\<^sup>2
    \<and> (xmin \<le> x \<and> x \<le> xmax \<and> ymin \<le> y \<and> y \<le> ymax \<and> zmin \<le> z \<and> z \<le> zmax
        \<longrightarrow> outside_dist_sq (xmin, xmax, ymin, ymax, zmin, zmax) (x, y, z) = 0)
    \<and> (0 < d_min \<and> forward_kinematics (col k v) = (x, y, z)
        \<and> xmin \<le> x \<and> x \<le> xmax \<and> ymin \<le> y \<and> y \<le> ymax \<and> zmin \<le> z \<and> z \<le> zmax
        \<longrightarrow> \<not> holds v (GreaterEq (\<lambda>v. outside_dist_sq (xmin, xmax, ymin, ymax, zmin, zmax)
                          (forward_kinematics (col k v))) (d_min\<^sup>2)))"
proof -
  let ?ob = "(xmin, xmax, ymin, ymax, zmin, zmax)"
  let ?c = "\<lambda>k ob. GreaterEq (\<lambda>v. outside_dist_sq ob (forward_kinematics (col k v))) (d_min\<^sup>2)"
  let ?N = "nat ((int (length waypoints) - 1) * steps + 1)"
  note opti = setup_optimization_Inr [OF assms(1)]
  have kN: "k < ?N"
    using assms(2) by (subst (asm) opti) simp
  have "?c k ?ob \<in> set (map (?c k) obstacles)"
    using assms(3) by (simp add: image_iff) blast
  moreover have "set (map (?c k) obstacles)
      \<subseteq> set (concat (map (\<lambda>k. map (?c k) obstacles) [0..<?N]))"
    using kN by auto
  ultimately have "?c k ?ob \<in> set (concat (map (\<lambda>k. map (?c k) obstacles) [0..<?N]))"
    by (rule rev_subsetD)
  then have mem: "?c k ?ob \<in> set (constraints opti)"
    by (subst opti) simp
  have form: "outside_dist_sq ?ob (x, y, z) =
        (max (xmin - x) 0 + max (x - xmax) 0)\<^sup>2 + (max (ymin - y) 0 + max (y - ymax) 0)\<^sup>2
        + (max (zmin - z) 0 + max (z - zmax) 0)\<^sup>2"
    by (simp add: outside_dist_sq_def)
  have zero: "outside_dist_sq ?ob (x, y, z) = 0"
    if "xmin \<le> x \<and> x \<le> xmax \<and> ymin \<le> y \<and> y \<le> ymax \<and> zmin \<le> z \<and> z \<le> zmax"
    using that by (simp add: outside_dist_sq_inside)
  have viol: "\<not> holds v (?c k ?ob)"
    if "0 < d_min \<and> forward_kinematics (col k v) = (x, y, z)
        \<and> xmin \<le> x \<and> x \<le> xmax \<and> ymin \<le> y \<and> y \<le> ymax \<and> zmin \<le> z \<and> z \<le> zmax"
  proof -
    from that have "outside_dist_sq ?ob (forward_kinematics (col k v)) = 0"
      by (simp add: outside_dist_sq_inside)
    moreover from that have "0 < d_min\<^sup>2" by simp
    ultimately show ?thesis by simp
  qed
  from mem form zero viol show ?thesis by blast
qed

theorem clearance_constraint_witness:
  "setup_optimization [Vec6 0 0 0 0 0 0, Vec6 0 0 0 0 0 0] 1 (replicate 6 (- 4, 4))
      [(- 2, 0, - 1, 0, 0, 1)] 0.05 =
   Inr (projr (setup_optimization [Vec6 0 0 0 0 0 0, Vec6 0 0 0 0 0 0] 1 (replicate 6 (- 4, 4))
      [(- 2, 0, - 1, 0, 0, 1)] 0.05))
   \<and> 0 < ncols (projr (setup_optimization [Vec6 0 0 0 0 0 0, Vec6 0 0 0 0 0 0] 1
      (replicate 6 (- 4, 4)) [(- 2, 0, - 1, 0, 0, 1)] 0.05))
   \<and> forward_kinematics (col 0 (\<lambda>j k. 0)) = (- 1.1843, - 0.4561, 0.0116)
   \<and> outside_dist_sq (- 2, 0, - 1, 0, 0, 1) (- 1.1843, - 0.4561, 0.0116) = 0
   \<and> \<not> holds (\<lambda>j k. 0) (GreaterEq (\<lambda>v. outside_dist_sq (- 2, 0, - 1, 0, 0, 1)
                          (forward_kinematics (col 0 v))) ((0.05::real)\<^sup>2))"
proof -
  let ?s = "setup_optimization [Vec6 0 0 0 0 0 0, Vec6 0 0 0 0 0 0] 1 (replicate 6 (- 4, 4))
      [(- 2, 0, - 1, 0, 0, 1)] 0.05"
  have h1: "?s = Inr (projr ?s)"
    by (simp add: setup_optimization_def Let_def)
  have h2: "0 < ncols (projr ?s)"
    by (simp add: setup_optimization_def Let_def)
  have h3: "((- 2, 0, - 1, 0, 0, 1) :: obstacle) \<in> set [(- 2, 0, - 1, 0, 0, 1)]"
    by simp
  have h4: "forward_kinematics (col 0 (\<lambda>j k. 0)) = (- 1.1843, - 0.4561, 0.0116)"
    by (simp add: col_def forward_kinematics_zero)
  from clearance_constraint [OF h1 h2 h3, of "- 1.1843" "- 0.4561" "0.0116" "\<lambda>j k. 0"] h1 h2 h4
  show ?thesis by simp
qed

section \<open>Assembling succeeds on well-formed requests\<close>

lemma pin_in_range:
  assumes "i < length waypoints" "0 \<le> steps"
  shows "0 \<le> int i * steps \<and> int i * steps < (int (length waypoints) - 1) * steps + 1"
proof -
  from assms(1) have "int i \<le> int (length waypoints) - 1" by simp
  then have "int i * steps \<le> (int (length waypoints) - 1) * steps"
    using assms(2) by (rule mult_right_mono)
  moreover have "0 \<le> int i * steps" using assms(2) by simp
  ultimately show ?thesis by simp
qed

lemma setup_optimization_succeeds:
  assumes "1 \<le> length waypoints" "0 \<le> steps" "6 \<le> length joint_limits"
  shows "\<exists>opti. setup_optimization waypoints steps joint_limits obstacles d_min = Inr opti"
proof -
  have "0 \<le> int (length waypoints) - 1" using assms(1) by linarith
  then have "0 \<le> (int (length waypoints) - 1) * steps" using assms(2) by (rule mult_nonneg_nonneg)
  then have N: "\<not> (int (length waypoints) - 1) * steps + 1 < 0" by simp
  have pins: "list_all (\<lambda>i. 0 \<le> int i * steps
      \<and> int i * steps < (int (length waypoints) - 1) * steps + 1) [0..<length waypoints]"
    unfolding list_all_iff
  proof
    fix i assume "i \<in> set [0..<length waypoints]"
    then have "i < length waypoints" by simp
    then show "0 \<le> int i * steps \<and> int i * steps < (int (length waypoints) - 1) * steps + 1"
      using assms(2) by (rule pin_in_range)
  qed
  show ?thesis
    unfolding setup_optimization_def Let_def using N pins assms(3) by simp
qed

lemma ncols_setup:
  assumes "setup_optimization waypoints steps joint_limits obstacles d_min = Inr opti"
  shows "int (ncols opti) = (int (length waypoints) - 1) * steps + 1"
  using assms unfolding setup_optimization_def Let_def
  by (auto split: if_splits)

lemma value_q_shape:
  "length (map (map f) (value_q N v)) = 6 \<and> list_all (\<lambda>r. length r = N) (map (map f) (value_q N v))"
  by (simp add: value_q_def list_all_iff)

section \<open>Number of samples\<close>

text \<open>
  Claim C2. For a request with at least two waypoints and a positive number of steps between
  waypoints (and a limit pair for each of the six joints) the problem is assembled, its
  decision variable has exactly \<open>N = (numWaypoints - 1) * stepsBetweenWaypoints + 1\<close> columns,
  and the matrix returned when the backend succeeds has six rows of \<open>N\<close> entries.
\<close>

theorem sample_count:
  assumes "2 \<le> length waypoints" and "0 < steps" and "6 \<le> length joint_limits"
  shows "\<exists>opti. setup_optimization waypoints steps joint_limits obstacles d_min = Inr opti
     \<and> int (ncols opti) = (int (length waypoints) - 1) * steps + 1
     \<and> (\<forall>(ipopt :: 's backend) s sol s'. ipopt opti s = (Inr sol, s') \<longrightarrow>
          (\<exists>M. solve_and_print_trajectory ipopt opti (ncols opti) s = (Inr M, s')
             \<and> length M = 6
             \<and> list_all (\<lambda>r. int (length r) = (int (length waypoints) - 1) * steps + 1) M))"
proof -
  from assms obtain opti
    where opti: "setup_optimization waypoints steps joint_limits obstacles d_min = Inr opti"
    using setup_optimization_succeeds [of waypoints steps joint_limits obstacles d_min]
    by (cases waypoints) auto
  note N = ncols_setup [OF opti]
  have "1 \<le> int (length waypoints) - 1" using assms(1) by linarith
  then have "1 * steps \<le> (int (length waypoints) - 1) * steps"
    by (rule mult_right_mono) (use assms(2) in simp)
  with N assms(2) have big: "ncols opti \<noteq> 1" by linarith
  have ret: "\<exists>M. solve_and_print_trajectory ipopt opti (ncols opti) s = (Inr M, s')
             \<and> length M = 6
             \<and> list_all (\<lambda>r. int (length r) = (int (length waypoints) - 1) * steps + 1) M"
    if "ipopt opti s = (Inr sol, s')" for ipopt :: "'s backend" and s sol s'
    using that big value_q_shape [of rad2deg "ncols opti" sol] N
    by (simp add: solve_and_print_trajectory_def Let_def list_all_iff)
  from opti N ret show ?thesis by blast
qed

theorem sample_count_witness:
  "2 \<le> length [Vec6 0 0 0 0 0 0, Vec6 90 90 90 90 90 90] \<and> (0::int) < 3
   \<and> 6 \<le> length (replicate 6 (- 4 :: real, 4 :: real))
   \<and> ncols (projr (setup_optimization [Vec6 0 0 0 0 0 0, Vec6 90 90 90 90 90 90] 3
         (replicate 6 (- 4, 4)) [] 0.05)) = 4
   \<and> fst (solve_and_print_trajectory zero_backend
         (projr (setup_optimization [Vec6 0 0 0 0 0 0, Vec6 90 90 90 90 90 90] 3
            (replicate 6 (- 4, 4)) [] 0.05)) 4 0)
       = Inr (replicate 6 [0, 0, 0, 0])"
proof -
  have h1: "2 \<le> length [Vec6 0 0 0 0 0 0, Vec6 90 90 90 90 90 90]" by simp
  have h2: "(0::int) < 3" by simp
  have h3: "6 \<le> length (replicate 6 (- 4 :: real, 4 :: real))" by simp
  from sample_count [OF h1 h2 h3, of "[]" "0.05", where 's = nat]
  obtain opti where
    o: "setup_optimization [Vec6 0 0 0 0 0 0, Vec6 90 90 90 90 90 90] 3
         (replicate 6 (- 4, 4)) [] 0.05 = Inr opti"
    and n: "int (ncols opti) = (int (length [Vec6 0 0 0 0 0 0, Vec6 90 90 90 90 90 90]) - 1) * 3 + 1"
    and r: "\<forall>(ipopt :: nat backend) s sol s'. ipopt opti s = (Inr sol, s') \<longrightarrow>
          (\<exists>M. solve_and_print_trajectory ipopt opti (ncols opti) s = (Inr M, s')
             \<and> length M = 6
             \<and> list_all (\<lambda>r. int (length r)
                  = (int (length [Vec6 0 0 0 0 0 0, Vec6 90 90 90 90 90 90]) - 1) * 3 + 1) M)"
    by blast
  from n have n4: "ncols opti = 4" by simp
  have "fst (solve_and_print_trajectory zero_backend opti 4 0) = Inr (replicate 6 [0, 0, 0, 0])"
    by (simp add: solve_and_print_trajectory_def zero_backend_def n4 value_q_def upt_6 upt_4
        rad2deg_def numeral_eq_Suc)
  with h1 h2 h3 o n4 show ?thesis by simp
qed

section \<open>Waypoint constraints\<close>

lemma column_value_q:
  assumes "k < N"
  shows "column (map (map f) (value_q N v)) k = map f (vlist (col k v))"
  using assms by (simp add: column_def value_q_def col_def upt_6)

lemma solve_Inr:
  assumes "solve_and_print_trajectory ipopt opti N s = (Inr M, s')"
  shows "\<exists>sol. ipopt opti s = (Inr sol, s') \<and> M = map (map rad2deg) (value_q (ncols opti) sol)"
  using assms unfolding solve_and_print_trajectory_def Let_def
  by (auto split: prod.splits sum.splits if_splits)

lemma setup_pin_index:
  assumes "setup_optimization waypoints steps joint_limits obstacles d_min = Inr opti"
    and "i < length waypoints"
  shows "0 \<le> int i * steps \<and> int i * steps < int (ncols opti)"
proof -
  from assms(1) have "list_all (\<lambda>i. 0 \<le> int i * steps
      \<and> int i * steps < (int (length waypoints) - 1) * steps + 1) [0..<length waypoints]"
    unfolding setup_optimization_def Let_def by (simp split: if_splits)
  with assms(2) have "0 \<le> int i * steps
      \<and> int i * steps < (int (length waypoints) - 1) * steps + 1"
    by (simp add: list_all_iff)
  then show ?thesis
    using ncols_setup [OF assms(1)] by simp
qed

text \<open>
  Claim C3. For every requested waypoint \<open>i\<close> the assembled problem contains the equality
  constraint that the column \<open>i * stepsBetweenWaypoints\<close> of the decision variable is that
  waypoint (a constraint, not a term of the objective); so every point that satisfies the
  constraints has the waypoint in that column, and so has, converted to degrees, the matrix
  returned for a solution that satisfies them.
\<close>

theorem waypoint_pinned:
  assumes "setup_optimization waypoints steps joint_limits obstacles d_min = Inr opti"
    and "i < length waypoints"
  shows "Equal (col (nat (int i * steps))) (waypoints ! i) \<in> set (constraints opti)
     \<and> 0 \<le> int i * steps \<and> int i * steps < int (ncols opti)
     \<and> (\<forall>v. feasible opti v \<longrightarrow> col (nat (int i * steps)) v = waypoints ! i)
     \<and> (\<forall>(ipopt :: 's backend) s sol s' M.
           ipopt opti s = (Inr sol, s') \<and> feasible opti sol
           \<and> solve_and_print_trajectory ipopt opti (ncols opti) s = (Inr M, s')
           \<longrightarrow> column M (nat (int i * steps)) = map rad2deg (vlist (waypoints ! i)))"
proof -
  let ?idx = "nat (int i * steps)"
  have "(i, waypoints ! i) \<in> set (enumerate 0 waypoints)"
    using assms(2) by (simp add: in_set_enumerate_eq)
  then have "(\<lambda>(i, wp). Equal (col (nat (int i * steps))) wp) (i, waypoints ! i)
      \<in> set (map (\<lambda>(i, wp). Equal (col (nat (int i * steps))) wp) (enumerate 0 waypoints))"
    unfolding set_map by (rule imageI)
  then have mem: "Equal (col ?idx) (waypoints ! i) \<in> set (constraints opti)"
    by (subst setup_optimization_Inr [OF assms(1)]) simp
  have pin: "col ?idx v = waypoints ! i" if "feasible opti v" for v
  proof -
    from that mem have "holds v (Equal (col ?idx) (waypoints ! i))"
      unfolding feasible_def list_all_iff by blast
    then show ?thesis by simp
  qed
  note range = setup_pin_index [OF assms]
  then have idx: "?idx < ncols opti" by linarith
  have ret: "column M ?idx = map rad2deg (vlist (waypoints ! i))"
    if "ipopt opti s = (Inr sol, s') \<and> feasible opti sol
        \<and> solve_and_print_trajectory ipopt opti (ncols opti) s = (Inr M, s')"
    for ipopt :: "'s backend" and s sol s' M
  proof -
    from that solve_Inr [of ipopt opti "ncols opti" s M s']
    have "M = map (map rad2deg) (value_q (ncols opti) sol)" by auto
    then have "column M ?idx = map rad2deg (vlist (col ?idx sol))"
      using idx by (simp add: column_value_q)
    with that pin [of sol] show ?thesis by simp
  qed
  from mem range pin ret show ?thesis by blast
qed

theorem waypoint_pinned_witness:
  "setup_optimization [Vec6 0 0 0 0 0 0, Vec6 1 1 1 1 1 1] 3 (replicate 6 (- 4, 4)) [] 0.05
     = Inr (projr (setup_optimization [Vec6 0 0 0 0 0 0, Vec6 1 1 1 1 1 1] 3
         (replicate 6 (- 4, 4)) [] 0.05))
   \<and> (1::nat) < length [Vec6 0 0 0 0 0 0, Vec6 1 1 1 1 1 1]
   \<and> feasible (projr (setup_optimization [Vec6 0 0 0 0 0 0, Vec6 1 1 1 1 1 1] 3
         (replicate 6 (- 4, 4)) [] 0.05)) (\<lambda>j k. real k / 3)
   \<and> col 3 (\<lambda>j k. real k / 3) = Vec6 1 1 1 1 1 1
   \<and> column (projr (fst (solve_and_print_trajectory (constant_backend (\<lambda>j k. real k / 3))
         (projr (setup_optimization [Vec6 0 0 0 0 0 0, Vec6 1 1 1 1 1 1] 3
            (replicate 6 (- 4, 4)) [] 0.05)) 4 0))) 3
       = map rad2deg [1, 1, 1, 1, 1, 1]"
proof -
  let ?v = "\<lambda>(j::nat) k. real k / 3"
  let ?s = "setup_optimization [Vec6 0 0 0 0 0 0, Vec6 1 1 1 1 1 1] 3 (replicate 6 (- 4, 4)) [] 0.05"
  have h1: "?s = Inr (projr ?s)"
    by (simp add: setup_optimization_def Let_def)
  have h2: "(1::nat) < length [Vec6 0 0 0 0 0 0, Vec6 1 1 1 1 1 1]" by simp
  have n: "ncols (projr ?s) = 4"
    by (simp add: setup_optimization_def Let_def)
  have f: "feasible (projr ?s) ?v"
    by (simp add: setup_optimization_def Let_def feasible_def upt_6 upt_4 row_def col_def
        enumerate_eq_zip upt_rec [of 0 2] upt_rec [of 1 2])
  have b: "constant_backend ?v (projr ?s) 0 = (Inr ?v, 1)"
    by (simp add: constant_backend_def)
  have r: "solve_and_print_trajectory (constant_backend ?v) (projr ?s) (ncols (projr ?s)) 0
      = (Inr (map (map rad2deg) (value_q 4 ?v)), 1)"
    using b n by (simp add: solve_and_print_trajectory_def Let_def)
  from waypoint_pinned [OF h1 h2, where 's = nat]
  have p: "\<forall>v. feasible (projr ?s) v
        \<longrightarrow> col (nat (int 1 * 3)) v = [Vec6 0 0 0 0 0 0, Vec6 1 1 1 1 1 1] ! 1"
    and q: "\<forall>(ipopt :: nat backend) s sol s' M.
           ipopt (projr ?s) s = (Inr sol, s') \<and> feasible (projr ?s) sol
           \<and> solve_and_print_trajectory ipopt (projr ?s) (ncols (projr ?s)) s = (Inr M, s')
           \<longrightarrow> column M (nat (int 1 * 3)) = map rad2deg (vlist ([Vec6 0 0 0 0 0 0, Vec6 1 1 1 1 1 1] ! 1))"
    by blast+
  from p f have "col (nat (int 1 * 3)) ?v = [Vec6 0 0 0 0 0 0, Vec6 1 1 1 1 1 1] ! 1"
    by blast
  then have c: "col 3 ?v = Vec6 1 1 1 1 1 1" by simp
  from q b f r have "column (map (map rad2deg) (value_q 4 ?v)) (nat (int 1 * 3))
      = map rad2deg (vlist ([Vec6 0 0 0 0 0 0, Vec6 1 1 1 1 1 1] ! 1))"
    by blast
  then have "column (map (map rad2deg) (value_q 4 ?v)) 3 = map rad2deg [1, 1, 1, 1, 1, 1]"
    by simp
  with r n have "column (projr (fst (solve_and_print_trajectory (constant_backend ?v)
         (projr ?s) 4 0))) 3 = map rad2deg [1, 1, 1, 1, 1, 1]"
    by simp
  with h1 h2 f c show ?thesis by simp
qed

section \<open>Objective\<close>

lemma sumsqr_dq: "sumsqr (dq N v) = spec_objective N v"
  by (simp add: sumsqr_def dq_def upt_6 spec_objective_def sq_norm_diff_def col_def
      sum_list_addf comp_def)

text \<open>
  Claim C4. The objective of the assembled problem is the sum, over the pairs of consecutive
  columns, of the squared Euclidean norm of their difference, and nothing else.
\<close>

theorem objective_smoothness:
  assumes "setup_optimization waypoints steps joint_limits obstacles d_min = Inr opti"
  shows "objective opti v = spec_objective (ncols opti) v
     \<and> objective opti v =
        (\<Sum>k = 0..<ncols opti - 1. \<Sum>j = 0..<6. (v j (k + 1) - v j k)\<^sup>2)"
proof -
  have "objective opti v = sumsqr (dq (ncols opti) v)"
    by (subst (1 2) setup_optimization_Inr [OF assms]) simp
  then have a: "objective opti v = spec_objective (ncols opti) v"
    by (simp add: sumsqr_dq)
  have "spec_objective N v = (\<Sum>k = 0..<N - 1. \<Sum>j = 0..<6. (v j (k + 1) - v j k)\<^sup>2)" for N
    by (simp add: spec_objective_def sq_norm_diff_def col_def interv_sum_list_conv_sum_set_nat
        numeral_eq_Suc add.assoc)
  with a show ?thesis by simp
qed

theorem objective_smoothness_witness:
  "setup_optimization [Vec6 0 0 0 0 0 0, Vec6 1 1 1 1 1 1] 1 (replicate 6 (- 4, 4)) [] 0.05
     = Inr (projr (setup_optimization [Vec6 0 0 0 0 0 0, Vec6 1 1 1 1 1 1] 1
              (replicate 6 (- 4, 4)) [] 0.05))
   \<and> objective (projr (setup_optimization [Vec6 0 0 0 0 0 0, Vec6 1 1 1 1 1 1] 1
              (replicate 6 (- 4, 4)) [] 0.05)) (\<lambda>j k. real k) = 6"
proof -
  let ?s = "setup_optimization [Vec6 0 0 0 0 0 0, Vec6 1 1 1 1 1 1] 1 (replicate 6 (- 4, 4)) [] 0.05"
  have h: "?s = Inr (projr ?s)"
    by (simp add: setup_optimization_def Let_def)
  have n: "ncols (projr ?s) = 2"
    by (simp add: setup_optimization_def Let_def)
  from objective_smoothness [OF h, of "\<lambda>j k. real k"] n
  have "objective (projr ?s) (\<lambda>j k. real k) = spec_objective 2 (\<lambda>j k. real k)"
    by simp
  also have "\<dots> = 6"
    by (simp add: spec_objective_def sq_norm_diff_def col_def)
  finally show ?thesis using h by simp
qed

section \<open>Forward kinematics\<close>

lemma dh_transform_factors:
  "dh_transform theta d a alpha = mtimes (Rz theta) (mtimes (Tz d) (mtimes (Tx a) (Rx alpha)))"
  by (simp add: dh_transform_def mtimes_def Rz_def Tz_def Tx_def Rx_def upt_4)

lemma spec_link_dh:
  "spec_link q i = dh_transform (vlist q ! i) ([0.1273, 0, 0, 0.1639, 0.1157, 0.0922] ! i)
      ([0, -0.612, -0.5723, 0, 0, 0] ! i) ([pi / 2, 0, 0, pi / 2, - pi / 2, 0] ! i)"
  unfolding spec_link_def by (rule dh_transform_factors [symmetric])

lemma tcp_offset_Tz: "tcp_offset = Tz 0.2"
  by (simp add: tcp_offset_def Tz_def)

text \<open>
  Claim C5, as amended. \<^verbatim>\<open>forward_kinematics\<close> starts from the 4 x 4 identity and multiplies
  the running transform on the right, in joint order, by each link's transform
  \<open>T_i = Rz(theta_i) \<cdot> Tz(d_i) \<cdot> Tx(a_i) \<cdot> Rx(alpha_i)\<close>, which is the explicit cos/sin
  matrix of \<^verbatim>\<open>dh_transform\<close>; it then multiplies on the right by the TCP offset, a pure
  translation by 0.2 along the tool's Z axis, and returns the translation part of the
  product \<open>T_1 \<cdot> T_2 \<cdot> T_3 \<cdot> T_4 \<cdot> T_5 \<cdot> T_6 \<cdot> TCP\<close>.
\<close>

theorem forward_kinematics_chain:
  "forward_kinematics q = spec_fk_right_multiply q
   \<and> spec_fk_right_multiply q =
       translation (mtimes (mtimes (mtimes (mtimes (mtimes (mtimes (mtimes (eye 4)
         (spec_link q 0)) (spec_link q 1)) (spec_link q 2)) (spec_link q 3)) (spec_link q 4))
         (spec_link q 5)) (Tz 0.2))
   \<and> dh_transform theta d a alpha
       = mtimes (Rz theta) (mtimes (Tz d) (mtimes (Tx a) (Rx alpha)))
   \<and> tcp_offset = Tz 0.2"
proof -
  have "forward_kinematics q = spec_fk_right_multiply q"
    unfolding forward_kinematics_def spec_fk_right_multiply_def Let_def translation_def
      spec_link_dh tcp_offset_Tz ..
  moreover have "spec_fk_right_multiply q =
       translation (mtimes (mtimes (mtimes (mtimes (mtimes (mtimes (mtimes (eye 4)
         (spec_link q 0)) (spec_link q 1)) (spec_link q 2)) (spec_link q 3)) (spec_link q 4))
         (spec_link q 5)) (Tz 0.2))"
    unfolding spec_fk_right_multiply_def upt_6 by simp
  ultimately show ?thesis
    using dh_transform_factors tcp_offset_Tz by simp
qed

text \<open>
  The chain in which the running transform is multiplied on the left by each link's
  transform gives another position, already for the zero joint angles.
\<close>

lemma spec_fk_left_multiply_zero:
  "spec_fk_left_multiply (Vec6 0 0 0 0 0 0) = (- 1.1843, - 0.0361, 0.3352)"
  by (simp add: spec_fk_left_multiply_def spec_link_dh translation_def upt_6 upt_4 eye_def
      mtimes_def dh_transform_def Tz_def)

theorem left_multiply_counterexample:
  "forward_kinematics (Vec6 0 0 0 0 0 0) \<noteq> spec_fk_left_multiply (Vec6 0 0 0 0 0 0)"
  by (simp add: forward_kinematics_zero spec_fk_left_multiply_zero)

section \<open>Malformed requests\<close>

lemma exn_class_cases: "exn_class e = ''IndexError'' \<or> exn_class e = ''RuntimeError''"
  by (cases e) simp_all

lemma raised_class_not_FormatError: "raised_class r \<noteq> Some ''FormatError''"
proof (cases r)
  case (Inl e)
  then show ?thesis using exn_class_cases [of e] by auto
next
  case (Inr a)
  then show ?thesis by simp
qed

lemma solve_state:
  "snd (solve_and_print_trajectory ipopt opti N s) = snd (ipopt opti s)"
  unfolding solve_and_print_trajectory_def Let_def
  by (simp split: prod.splits sum.splits)

lemma solve_failure:
  assumes "fst (ipopt opti s) = Inl status"
  shows "fst (solve_and_print_trajectory ipopt opti N s) = Inl (RuntimeError (SolverFailed status))"
  using assms unfolding solve_and_print_trajectory_def Let_def
  by (cases "ipopt opti s") auto

lemma optimize_single:
  "\<exists>opti. setup_optimization [vmap radians wp] 3 (replicate 6 (- pi, pi))
            [(-0.095, 0.115, -0.76, -0.70, 0.125, 0.325)] 0.05 = Inr opti
     \<and> ncols opti = 1
     \<and> optimize_from_waypoints_deg ipopt [wp] s = solve_and_print_trajectory ipopt opti 1 s"
  by (simp add: optimize_from_waypoints_deg_def setup_optimization_def Let_def)

text \<open>
  Claim C6, as amended. \<^verbatim>\<open>optimize_from_waypoints_deg\<close> validates nothing and never ends
  with a \<^verbatim>\<open>FormatError\<close>. A request of a single waypoint is assembled into a problem of
  one sample column and handed to the backend, which is invoked once; when the backend
  fails, the call ends with the \<^verbatim>\<open>RuntimeError\<close> of the solver.
\<close>

theorem single_waypoint_reaches_solver:
  "\<exists>opti. setup_optimization [vmap radians wp] 3 (replicate 6 (- pi, pi))
            [(-0.095, 0.115, -0.76, -0.70, 0.125, 0.325)] 0.05 = Inr opti
     \<and> ncols opti = 1
     \<and> snd (optimize_from_waypoints_deg ipopt [wp] s) = snd (ipopt opti s)
     \<and> (\<forall>status. fst (ipopt opti s) = Inl status \<longrightarrow>
          fst (optimize_from_waypoints_deg ipopt [wp] s) = Inl (RuntimeError (SolverFailed status)))
     \<and> raised_class (fst (optimize_from_waypoints_deg ipopt waypoints_deg s)) \<noteq> Some ''FormatError''"
proof -
  from optimize_single [of wp ipopt s] obtain opti where
    o: "setup_optimization [vmap radians wp] 3 (replicate 6 (- pi, pi))
            [(-0.095, 0.115, -0.76, -0.70, 0.125, 0.325)] 0.05 = Inr opti"
    and n: "ncols opti = 1"
    and e: "optimize_from_waypoints_deg ipopt [wp] s = solve_and_print_trajectory ipopt opti 1 s"
    by blast
  have "snd (optimize_from_waypoints_deg ipopt [wp] s) = snd (ipopt opti s)"
    unfolding e by (rule solve_state)
  moreover have "\<forall>status. fst (ipopt opti s) = Inl status \<longrightarrow>
      fst (optimize_from_waypoints_deg ipopt [wp] s) = Inl (RuntimeError (SolverFailed status))"
    unfolding e by (simp add: solve_failure)
  ultimately show ?thesis
    using o n raised_class_not_FormatError by blast
qed

theorem single_waypoint_reaches_solver_witness:
  "ncols (projr (setup_optimization [vmap radians (Vec6 0 0 0 0 0 0)] 3 (replicate 6 (- pi, pi))
            [(-0.095, 0.115, -0.76, -0.70, 0.125, 0.325)] 0.05)) = 1
   \<and> fst (infeasible_backend (projr (setup_optimization [vmap radians (Vec6 0 0 0 0 0 0)] 3
            (replicate 6 (- pi, pi)) [(-0.095, 0.115, -0.76, -0.70, 0.125, 0.325)] 0.05)) 0)
       = Inl ''Infeasible_Problem_Detected''
   \<and> optimize_from_waypoints_deg infeasible_backend [Vec6 0 0 0 0 0 0] 0
       = (Inl (RuntimeError (SolverFailed ''Infeasible_Problem_Detected'')), 1)"
proof -
  let ?s = "setup_optimization [vmap radians (Vec6 0 0 0 0 0 0)] 3 (replicate 6 (- pi, pi))
            [(-0.095, 0.115, -0.76, -0.70, 0.125, 0.325)] 0.05"
  from single_waypoint_reaches_solver [of "Vec6 0 0 0 0 0 0" infeasible_backend 0]
  obtain opti where o: "?s = Inr opti" and n: "ncols opti = 1"
    and st: "snd (optimize_from_waypoints_deg infeasible_backend [Vec6 0 0 0 0 0 0] 0)
        = snd (infeasible_backend opti 0)"
    and f: "\<forall>status. fst (infeasible_backend opti 0) = Inl status \<longrightarrow>
          fst (optimize_from_waypoints_deg infeasible_backend [Vec6 0 0 0 0 0 0] 0)
            = Inl (RuntimeError (SolverFailed status))"
    by blast
  have b: "infeasible_backend opti 0 = (Inl ''Infeasible_Problem_Detected'', 1)"
    by (simp add: infeasible_backend_def)
  from f b have "fst (optimize_from_waypoints_deg infeasible_backend [Vec6 0 0 0 0 0 0] 0)
      = Inl (RuntimeError (SolverFailed ''Infeasible_Problem_Detected''))" by simp
  with st b have "optimize_from_waypoints_deg infeasible_backend [Vec6 0 0 0 0 0 0] 0
       = (Inl (RuntimeError (SolverFailed ''Infeasible_Problem_Detected'')), 1)"
    by (simp add: prod_eq_iff)
  with o n b show ?thesis by simp
qed

text \<open>
  A request of one waypoint, all angles zero, with a backend that succeeds: the backend has
  been invoked when the call ends, and the call does not end with a \<^verbatim>\<open>FormatError\<close>.
\<close>

theorem single_waypoint_counterexample:
  "snd (optimize_from_waypoints_deg zero_backend [Vec6 0 0 0 0 0 0] 0) = 1
   \<and> raised_class (fst (optimize_from_waypoints_deg zero_backend [Vec6 0 0 0 0 0 0] 0))
       \<noteq> Some ''FormatError''"
  by (simp add: optimize_from_waypoints_deg_def setup_optimization_def Let_def
      solve_and_print_trajectory_def zero_backend_def)

section \<open>Solver failures\<close>

text \<open>
  Claim C7, as amended. \<^verbatim>\<open>solve_and_print_trajectory\<close> invokes the backend once and does
  not classify its failure: whatever the return status, infeasibility and exhausted
  iterations alike, the call ends with CasADi's \<^verbatim>\<open>RuntimeError\<close> carrying that status, and
  the backend is not invoked again.
\<close>

theorem solver_failure_propagates:
  "snd (solve_and_print_trajectory ipopt opti N s) = snd (ipopt opti s)
   \<and> (\<forall>status. fst (ipopt opti s) = Inl status \<longrightarrow>
        fst (solve_and_print_trajectory ipopt opti N s) = Inl (RuntimeError (SolverFailed status))
        \<and> raised_class (fst (solve_and_print_trajectory ipopt opti N s)) = Some ''RuntimeError'')"
  using solve_state [of ipopt opti N s] solve_failure [of ipopt opti s _ N]
  by simp

theorem solver_failure_propagates_witness:
  "fst (flaky_backend \<lparr>ncols = 4, objective = (\<lambda>v. 0), constraints = []\<rparr> 0)
     = Inl ''Maximum_Iterations_Exceeded''
   \<and> fst (flaky_backend \<lparr>ncols = 4, objective = (\<lambda>v. 0), constraints = []\<rparr> 1)
     = Inr (\<lambda>j k. 0)
   \<and> solve_and_print_trajectory flaky_backend \<lparr>ncols = 4, objective = (\<lambda>v. 0), constraints = []\<rparr> 4 0
     = (Inl (RuntimeError (SolverFailed ''Maximum_Iterations_Exceeded'')), 1)"
proof -
  let ?p = "\<lparr>ncols = 4, objective = (\<lambda>v. 0), constraints = []\<rparr>"
  have b: "flaky_backend ?p 0 = (Inl ''Maximum_Iterations_Exceeded'', 1)"
    by (simp add: flaky_backend_def)
  have b1: "fst (flaky_backend ?p 1) = Inr (\<lambda>j k. 0)"
    by (simp add: flaky_backend_def)
  from solver_failure_propagates [of flaky_backend ?p 4 0] b
  have "snd (solve_and_print_trajectory flaky_backend ?p 4 0) = 1"
    and "fst (solve_and_print_trajectory flaky_backend ?p 4 0)
      = Inl (RuntimeError (SolverFailed ''Maximum_Iterations_Exceeded''))"
    by simp_all
  then have "solve_and_print_trajectory flaky_backend ?p 4 0
     = (Inl (RuntimeError (SolverFailed ''Maximum_Iterations_Exceeded'')), 1)"
    by (simp add: prod_eq_iff)
  with b b1 show ?thesis by simp
qed

text \<open>
  A backend that reports an infeasible problem and one that reports exhausted iterations:
  both calls end with an exception of the same class.
\<close>

theorem solver_failure_kinds_counterexample:
  "raised_class (fst (optimize_from_waypoints_deg infeasible_backend
       [Vec6 0 0 0 0 0 0, Vec6 90 90 90 90 90 90] 0)) = Some ''RuntimeError''
   \<and> raised_class (fst (optimize_from_waypoints_deg max_iter_backend
       [Vec6 0 0 0 0 0 0, Vec6 90 90 90 90 90 90] 0)) = Some ''RuntimeError''"
  by (simp add: optimize_from_waypoints_deg_def setup_optimization_def Let_def
      solve_and_print_trajectory_def infeasible_backend_def max_iter_backend_def)

section \<open>Unit conversion\<close>

lemma rad2deg_radians: "rad2deg (radians x) = x"
  by (simp add: rad2deg_def radians_def)

lemma vmap_rad2deg_radians: "vmap rad2deg (vmap radians wp) = wp"
  by (cases wp) (simp add: rad2deg_radians)

lemma vlist_vmap: "vlist (vmap f wp) = map f (vlist wp)"
  by (cases wp) simp

lemma feasible_pin:
  assumes "setup_optimization waypoints steps joint_limits obstacles d_min = Inr opti"
    and "i < length waypoints" and "feasible opti v"
  shows "col (nat (int i * steps)) v = waypoints ! i"
proof -
  have "(i, waypoints ! i) \<in> set (enumerate 0 waypoints)"
    using assms(2) by (simp add: in_set_enumerate_eq)
  then have "(\<lambda>(i, wp). Equal (col (nat (int i * steps))) wp) (i, waypoints ! i)
      \<in> set (map (\<lambda>(i, wp). Equal (col (nat (int i * steps))) wp) (enumerate 0 waypoints))"
    unfolding set_map by (rule imageI)
  then have "Equal (col (nat (int i * steps))) (waypoints ! i) \<in> set (constraints opti)"
    by (subst setup_optimization_Inr [OF assms(1)]) simp
  with assms(3) have "holds v (Equal (col (nat (int i * steps))) (waypoints ! i))"
    unfolding feasible_def list_all_iff by blast
  then show ?thesis by simp
qed

lemma optimize_unfold:
  "optimize_from_waypoints_deg ipopt waypoints_deg s =
     (case setup_optimization (map (vmap radians) waypoints_deg) 3 (replicate 6 (- pi, pi))
             [(-0.095, 0.115, -0.76, -0.70, 0.125, 0.325)] 0.05 of
        Inl e \<Rightarrow> (Inl e, s)
      | Inr opti \<Rightarrow> solve_and_print_trajectory ipopt opti (ncols opti) s)"
  by (simp add: optimize_from_waypoints_deg_def Let_def)

text \<open>
  Claim C8. Converting degrees to radians (the waypoints) and radians to degrees (the
  solution) is the identity; so, for a request of at least two waypoints and a solution that
  satisfies the constraints, the returned matrix has, in the pinned column \<open>3 * i\<close>, the
  values of the input waypoint \<open>i\<close> in degrees.
\<close>

theorem degrees_round_trip:
  assumes "i < length waypoints_deg" and "2 \<le> length waypoints_deg"
    and "setup_optimization (map (vmap radians) waypoints_deg) 3 (replicate 6 (- pi, pi))
           [(-0.095, 0.115, -0.76, -0.70, 0.125, 0.325)] 0.05 = Inr opti"
    and "ipopt opti s = (Inr sol, s')" and "feasible opti sol"
  shows "rad2deg (radians x) = x
     \<and> vmap rad2deg (vmap radians (waypoints_deg ! i)) = waypoints_deg ! i
     \<and> (\<exists>M. optimize_from_waypoints_deg ipopt waypoints_deg s = (Inr M, s')
           \<and> column M (3 * i) = vlist (waypoints_deg ! i))"
proof -
  let ?M = "map (map rad2deg) (value_q (ncols opti) sol)"
  have N: "int (ncols opti) = (int (length waypoints_deg) - 1) * 3 + 1"
    using ncols_setup [OF assms(3)] by simp
  from N assms(1) have "int (3 * i) < int (ncols opti)" by simp
  then have idx: "3 * i < ncols opti" by (simp only: of_nat_less_iff)
  from N assms(2) have "int (ncols opti) \<noteq> int 1" by simp
  then have big: "ncols opti \<noteq> 1" by (simp only: of_nat_eq_iff not_False_eq_True)
  have ret: "optimize_from_waypoints_deg ipopt waypoints_deg s = (Inr ?M, s')"
    unfolding optimize_unfold using assms(3,4) big
    by (simp add: solve_and_print_trajectory_def Let_def)
  have "col (nat (int i * 3)) sol = map (vmap radians) waypoints_deg ! i"
    using assms(3) _ assms(5) by (rule feasible_pin) (use assms(1) in simp)
  moreover have "nat (int i * 3) = 3 * i" by simp
  ultimately have pin: "col (3 * i) sol = vmap radians (waypoints_deg ! i)"
    using assms(1) by simp
  have "column ?M (3 * i) = map rad2deg (vlist (col (3 * i) sol))"
    using idx by (rule column_value_q)
  also have "\<dots> = vlist (vmap rad2deg (vmap radians (waypoints_deg ! i)))"
    unfolding pin by (simp add: vlist_vmap)
  also have "\<dots> = vlist (waypoints_deg ! i)"
    by (simp add: vmap_rad2deg_radians)
  finally have "column ?M (3 * i) = vlist (waypoints_deg ! i)" .
  with ret show ?thesis
    using rad2deg_radians vmap_rad2deg_radians by blast
qed

lemma forward_kinematics_quarter:
  "forward_kinematics (Vec6 (pi / 2) 0 0 0 0 0) = (0.4561, - 1.1843, 0.0116)"
  by (simp add: forward_kinematics_def Let_def upt_6 upt_4 eye_def mtimes_def
      dh_transform_def tcp_offset_def)

lemma radians_90: "radians 90 = pi / 2 \<and> radians 0 = 0"
  by (simp add: radians_def)

theorem degrees_round_trip_witness:
  "(1::nat) < length [Vec6 90 0 0 0 0 0, Vec6 90 0 0 0 0 0]
   \<and> feasible (projr (setup_optimization (map (vmap radians) [Vec6 90 0 0 0 0 0, Vec6 90 0 0 0 0 0])
          3 (replicate 6 (- pi, pi)) [(-0.095, 0.115, -0.76, -0.70, 0.125, 0.325)] 0.05))
        (\<lambda>j k. if j = 0 then pi / 2 else 0)
   \<and> column (projr (fst (optimize_from_waypoints_deg
          (constant_backend (\<lambda>j k. if j = 0 then pi / 2 else 0))
          [Vec6 90 0 0 0 0 0, Vec6 90 0 0 0 0 0] 0))) 3 = [90, 0, 0, 0, 0, 0]"
proof -
  let ?w = "[Vec6 90 0 0 0 0 0, Vec6 90 0 0 0 0 0]"
  let ?v = "\<lambda>(j::nat) (k::nat). if j = 0 then pi / 2 else (0::real)"
  let ?s = "setup_optimization (map (vmap radians) ?w) 3 (replicate 6 (- pi, pi))
              [(-0.095, 0.115, -0.76, -0.70, 0.125, 0.325)] 0.05"
  have h1: "(1::nat) < length ?w" by simp
  have h2: "2 \<le> length ?w" by simp
  have h3: "?s = Inr (projr ?s)"
    by (simp add: setup_optimization_def Let_def)
  have h4: "constant_backend ?v (projr ?s) 0 = (Inr ?v, 1)"
    by (simp add: constant_backend_def)
  have c: "col k ?v = Vec6 (pi / 2) 0 0 0 0 0" for k
    by (simp add: col_def)
  have h5: "feasible (projr ?s) ?v"
    by (simp add: setup_optimization_def Let_def feasible_def upt_6 upt_4 row_def c
        enumerate_eq_zip upt_rec [of 0 2] upt_rec [of 1 2] radians_90
        forward_kinematics_quarter outside_dist_sq_def power2_eq_square)
  from degrees_round_trip [where ipopt = "constant_backend ?v" and s = 0 and sol = ?v
      and s' = 1 and i = 1 and waypoints_deg = ?w, OF h1 h2 h3 h4 h5]
  obtain M where "optimize_from_waypoints_deg (constant_backend ?v) ?w 0 = (Inr M, 1)"
    and "column M (3 * 1) = vlist (?w ! 1)"
    by blast
  then have "column (projr (fst (optimize_from_waypoints_deg (constant_backend ?v) ?w 0))) 3
      = [90, 0, 0, 0, 0, 0]"
    by simp
  with h1 h5 show ?thesis by simp
qed

section \<open>Planning parameters\<close>

lemma concat_map_single: "concat (map (\<lambda>k. map (f k) [x]) ks) = map (\<lambda>k. f k x) ks"
  by (induction ks) simp_all

text \<open>
  Claim C9. For every request \<^verbatim>\<open>optimize_from_waypoints_deg\<close> assembles the problem with the
  same parameters: 3 steps between waypoints, the limits \<open>(- pi, pi)\<close> for each of the six
  joints, one fixed obstacle box and the clearance 0.05. The assembled problem has
  \<open>(numWaypoints - 1) * 3 + 1\<close> columns, its six bound constraints are \<open>- pi \<le> q[j, :] \<le> pi\<close>,
  and its clearance constraints are one per column, for that box and \<open>0.05\<^sup>2\<close>.
\<close>

theorem planning_parameters_fixed:
  "optimize_from_waypoints_deg ipopt waypoints_deg s =
     (case setup_optimization (map (vmap radians) waypoints_deg) 3 (replicate 6 (- pi, pi))
             [(-0.095, 0.115, -0.76, -0.70, 0.125, 0.325)] 0.05 of
        Inl e \<Rightarrow> (Inl e, s)
      | Inr opti \<Rightarrow> solve_and_print_trajectory ipopt opti (ncols opti) s)
   \<and> (\<forall>opti. setup_optimization (map (vmap radians) waypoints_deg) 3 (replicate 6 (- pi, pi))
             [(-0.095, 0.115, -0.76, -0.70, 0.125, 0.325)] 0.05 = Inr opti \<longrightarrow>
         int (ncols opti) = (int (length waypoints_deg) - 1) * 3 + 1
         \<and> take 6 (constraints opti) = map (\<lambda>j. Bounded (- pi) (row (ncols opti) j) pi) [0..<6]
         \<and> drop (6 + length waypoints_deg) (constraints opti) =
             map (\<lambda>k. GreaterEq (\<lambda>v. outside_dist_sq
                    (-0.095, 0.115, -0.76, -0.70, 0.125, 0.325) (forward_kinematics (col k v)))
                  (0.05\<^sup>2)) [0..<ncols opti])"
proof -
  let ?box = "(-0.095, 0.115, -0.76, -0.70, 0.125, 0.325) :: obstacle"
  let ?s = "setup_optimization (map (vmap radians) waypoints_deg) 3 (replicate 6 (- pi, pi))
             [?box] 0.05"
  have nlp: "int (ncols opti) = (int (length waypoints_deg) - 1) * 3 + 1
         \<and> take 6 (constraints opti) = map (\<lambda>j. Bounded (- pi) (row (ncols opti) j) pi) [0..<6]
         \<and> drop (6 + length waypoints_deg) (constraints opti) =
             map (\<lambda>k. GreaterEq (\<lambda>v. outside_dist_sq ?box (forward_kinematics (col k v)))
                  (0.05\<^sup>2)) [0..<ncols opti]"
    if o: "?s = Inr opti" for opti
  proof -
    have N: "int (ncols opti) = (int (length waypoints_deg) - 1) * 3 + 1"
      using ncols_setup [OF o] by simp
    let ?N = "nat ((int (length (map (vmap radians) waypoints_deg)) - 1) * 3 + 1)"
    have n: "ncols opti = ?N" using N by simp
    let ?A = "map (\<lambda>j. Bounded (fst (replicate 6 (- pi, pi) ! j)) (row ?N j)
                 (snd (replicate 6 (- pi, pi) ! j))) [0..<6]"
    let ?B = "map (\<lambda>(i, wp). Equal (col (nat (int i * 3))) wp)
                 (enumerate 0 (map (vmap radians) waypoints_deg))"
    let ?C = "concat (map (\<lambda>k. map (\<lambda>ob.
                 GreaterEq (\<lambda>v. outside_dist_sq ob (forward_kinematics (col k v))) ((0.05::real)\<^sup>2))
               [?box]) [0..<?N])"
    have cs: "constraints opti = ?A @ ?B @ ?C"
      by (subst setup_optimization_Inr [OF o]) simp
    have A: "?A = map (\<lambda>j. Bounded (- pi) (row (ncols opti) j) pi) [0..<6]"
      unfolding n by (simp add: upt_6)
    have lA: "length ?A = 6" by simp
    have lB: "length ?B = length waypoints_deg" by simp
    have C: "?C = map (\<lambda>k. GreaterEq (\<lambda>v. outside_dist_sq ?box (forward_kinematics (col k v)))
                  (0.05\<^sup>2)) [0..<ncols opti]"
      unfolding n by (rule concat_map_single)
    have "take 6 (constraints opti) = ?A"
      unfolding cs using lA by simp
    moreover have "drop (6 + length waypoints_deg) (constraints opti) = ?C"
      unfolding cs using lA lB by simp
    ultimately show ?thesis using N A C by simp
  qed
  from optimize_unfold [of ipopt waypoints_deg s] nlp show ?thesis by blast
qed

theorem planning_parameters_fixed_witness:
  "setup_optimization (map (vmap radians) [Vec6 0 0 0 0 0 0, Vec6 90 90 90 90 90 90]) 3
       (replicate 6 (- pi, pi)) [(-0.095, 0.115, -0.76, -0.70, 0.125, 0.325)] 0.05
     = Inr (projr (setup_optimization
         (map (vmap radians) [Vec6 0 0 0 0 0 0, Vec6 90 90 90 90 90 90]) 3
         (replicate 6 (- pi, pi)) [(-0.095, 0.115, -0.76, -0.70, 0.125, 0.325)] 0.05))
   \<and> ncols (projr (setup_optimization
         (map (vmap radians) [Vec6 0 0 0 0 0 0, Vec6 90 90 90 90 90 90]) 3
         (replicate 6 (- pi, pi)) [(-0.095, 0.115, -0.76, -0.70, 0.125, 0.325)] 0.05)) = 4
   \<and> take 6 (constraints (projr (setup_optimization
         (map (vmap radians) [Vec6 0 0 0 0 0 0, Vec6 90 90 90 90 90 90]) 3
         (replicate 6 (- pi, pi)) [(-0.095, 0.115, -0.76, -0.70, 0.125, 0.325)] 0.05)))
       = map (\<lambda>j. Bounded (- pi) (row 4 j) pi) [0..<6]
   \<and> length (drop (6 + 2) (constraints (projr (setup_optimization
         (map (vmap radians) [Vec6 0 0 0 0 0 0, Vec6 90 90 90 90 90 90]) 3
         (replicate 6 (- pi, pi)) [(-0.095, 0.115, -0.76, -0.70, 0.125, 0.325)] 0.05)))) = 4"
proof -
  let ?w = "[Vec6 0 0 0 0 0 0, Vec6 90 90 90 90 90 90]"
  let ?s = "setup_optimization (map (vmap radians) ?w) 3
       (replicate 6 (- pi, pi)) [(-0.095, 0.115, -0.76, -0.70, 0.125, 0.325)] 0.05"
  have h: "?s = Inr (projr ?s)"
    by (simp add: setup_optimization_def Let_def)
  have "int (ncols (projr ?s)) = (int (length ?w) - 1) * 3 + 1
      \<and> take 6 (constraints (projr ?s))
        = map (\<lambda>j. Bounded (- pi) (row (ncols (projr ?s)) j) pi) [0..<6]
      \<and> drop (6 + length ?w) (constraints (projr ?s)) =
             map (\<lambda>k. GreaterEq (\<lambda>v. outside_dist_sq
                    (-0.095, 0.115, -0.76, -0.70, 0.125, 0.325) (forward_kinematics (col k v)))
                  (0.05\<^sup>2)) [0..<ncols (projr ?s)]"
    using planning_parameters_fixed [of zero_backend ?w 0, THEN conjunct2, rule_format, OF h] .
  then have n: "int (ncols (projr ?s)) = (int (length ?w) - 1) * 3 + 1"
    and t: "take 6 (constraints (projr ?s))
        = map (\<lambda>j. Bounded (- pi) (row (ncols (projr ?s)) j) pi) [0..<6]"
    and d: "drop (6 + length ?w) (constraints (projr ?s)) =
             map (\<lambda>k. GreaterEq (\<lambda>v. outside_dist_sq
                    (-0.095, 0.115, -0.76, -0.70, 0.125, 0.325) (forward_kinematics (col k v)))
                  (0.05\<^sup>2)) [0..<ncols (projr ?s)]"
    by simp_all
  from n have n4: "ncols (projr ?s) = 4" by simp
  from d have "length (drop (6 + 2) (constraints (projr ?s))) = 4"
    unfolding n4 by simp
  with h n4 t show ?thesis by simp
qed

section \<open>The two copies of the planner\<close>

text \<open>
  Claim C10. The functions of \<^verbatim>\<open>prueba/TrajectoryPlannerV1_0.py\<close> are equal, as functions,
  to the functions of the same name of \<^verbatim>\<open>TrajectoryPlannerV1_0.py\<close>.
\<close>

theorem copies_agree:
  "prueba_dh_transform = dh_transform \<and> prueba_tcp_offset = tcp_offset
   \<and> prueba_forward_kinematics = forward_kinematics
   \<and> prueba_setup_optimization = setup_optimization
   \<and> (prueba_solve_and_print_trajectory :: 's backend \<Rightarrow> nlp \<Rightarrow> nat \<Rightarrow> 's \<Rightarrow> (exn + mat) \<times> 's)
       = solve_and_print_trajectory
   \<and> (prueba_optimize_from_waypoints_deg :: 's backend \<Rightarrow> vec6 list \<Rightarrow> 's \<Rightarrow> (exn + mat) \<times> 's)
       = optimize_from_waypoints_deg"
proof -
  have dh: "prueba_dh_transform = dh_transform"
    by (intro ext) (simp add: prueba_dh_transform_def dh_transform_def)
  have tcp: "prueba_tcp_offset = tcp_offset"
    by (simp add: prueba_tcp_offset_def tcp_offset_def)
  have fk: "prueba_forward_kinematics = forward_kinematics"
    by (intro ext) (simp only: prueba_forward_kinematics_def forward_kinematics_def dh tcp)
  have su: "prueba_setup_optimization = setup_optimization"
    by (intro ext) (simp only: prueba_setup_optimization_def setup_optimization_def fk)
  have so: "(prueba_solve_and_print_trajectory
        :: 's backend \<Rightarrow> nlp \<Rightarrow> nat \<Rightarrow> 's \<Rightarrow> (exn + mat) \<times> 's) = solve_and_print_trajectory"
    by (intro ext)
      (simp only: prueba_solve_and_print_trajectory_def solve_and_print_trajectory_def)
  have "(prueba_optimize_from_waypoints_deg
        :: 's backend \<Rightarrow> vec6 list \<Rightarrow> 's \<Rightarrow> (exn + mat) \<times> 's) = optimize_from_waypoints_deg"
    by (intro ext)
      (simp only: prueba_optimize_from_waypoints_deg_def optimize_from_waypoints_deg_def
        su so)
  with dh tcp fk su so show ?thesis by simp
qed

end
